theory Spec2Isabelle
  imports Complex_Main "HOL-Library.Log_Nat"
begin

section \<open>Numbers and brackets\<close>

text \<open>
  The calculator of \<^verbatim>\<open>src/app/page.tsx\<close> works on TypeScript values of type
  \<^verbatim>\<open>number\<close>, that is on IEEE-754 binary64 numbers. It is modelled twice.

  The first model takes numbers as exact reals. It carries the statements that are formulas
  of the calculation: the bracket walks, the allowance, the thresholds and the order of the
  pipeline. The one non-finite number of the source, \<^verbatim>\<open>Number.POSITIVE_INFINITY\<close>, occurs
  only as the upper bound of the last bracket of each table and is a constructor of its own.

  The second model, further down, follows the same source in binary64 arithmetic, with
  rounding, overflow to infinity and NaN. It carries the statements whose truth depends on
  the arithmetic of the machine: the decimal values of the scenario and the scaling of the
  nursery cost with the number of children.
\<close>

datatype bound = Finite real | POSITIVE_INFINITY

record bracket =
  min_b :: real
  max_b :: bound
  rate :: real

definition TAX_BRACKETS :: "bracket list" where
  "TAX_BRACKETS =
    [\<lparr>min_b = 0, max_b = Finite 12570, rate = 0\<rparr>,
     \<lparr>min_b = 12570, max_b = Finite 50270, rate = 0.2\<rparr>,
     \<lparr>min_b = 50270, max_b = Finite 125140, rate = 0.4\<rparr>,
     \<lparr>min_b = 125140, max_b = POSITIVE_INFINITY, rate = 0.45\<rparr>]"

definition NI_BRACKETS :: "bracket list" where
  "NI_BRACKETS =
    [\<lparr>min_b = 0, max_b = Finite 12570, rate = 0\<rparr>,
     \<lparr>min_b = 12570, max_b = Finite 50270, rate = 0.12\<rparr>,
     \<lparr>min_b = 50270, max_b = POSITIVE_INFINITY, rate = 0.02\<rparr>]"

definition PENSION_ANNUAL_ALLOWANCE :: real where
  "PENSION_ANNUAL_ALLOWANCE = 60000"

definition CHILDCARE_FREE_HOURS_THRESHOLD :: real where
  "CHILDCARE_FREE_HOURS_THRESHOLD = 100000"

definition FREE_CHILDCARE_HOURS_PER_WEEK_UNDER_100K :: real where
  "FREE_CHILDCARE_HOURS_PER_WEEK_UNDER_100K = 30"

definition FREE_CHILDCARE_HOURS_PER_WEEK_3_4_YEARS :: real where
  "FREE_CHILDCARE_HOURS_PER_WEEK_3_4_YEARS = 15"

definition SCHOOL_WEEKS_PER_YEAR :: real where
  "SCHOOL_WEEKS_PER_YEAR = 38"

text \<open>
  \<^verbatim>\<open>Math.min(remainingIncome, bracket.max - bracket.min)\<close>: for a finite upper bound
  the minimum with the width of the bracket, for the infinite one the first argument.
\<close>

definition min_width :: "real \<Rightarrow> bracket \<Rightarrow> real" where
  "min_width remainingIncome bracket =
    (case max_b bracket of
       Finite m \<Rightarrow> min remainingIncome (m - min_b bracket)
     | POSITIVE_INFINITY \<Rightarrow> remainingIncome)"

section \<open>Income tax\<close>

text \<open>
  The first lines of \<^verbatim>\<open>calculateTax\<close>: the personal allowance, tapered above 100000.
\<close>

definition personalAllowance :: "real \<Rightarrow> real" where
  "personalAllowance taxableIncome =
    (if taxableIncome > 100000
     then 12570 - min 12570 ((taxableIncome - 100000) / 2)
     else 12570)"

text \<open>
  The \<^verbatim>\<open>for\<close> loop of \<^verbatim>\<open>calculateTax\<close> over the remaining brackets, with the
  two mutable variables \<^verbatim>\<open>tax\<close> and \<^verbatim>\<open>remainingIncome\<close> passed along. The
  \<^verbatim>\<open>break\<close> returns the tax accumulated so far. \<^verbatim>\<open>adjustedMin\<close> is computed by the
  source and never read.
\<close>

fun calculateTax_loop :: "real \<Rightarrow> real \<Rightarrow> bracket list \<Rightarrow> real \<Rightarrow> real \<Rightarrow> real" where
  "calculateTax_loop taxableIncome allowance [] tax remainingIncome = tax"
| "calculateTax_loop taxableIncome allowance (bracket # brackets) tax remainingIncome =
    (if remainingIncome \<le> 0 then tax
     else
       let taxableInBracket = min_width remainingIncome bracket;
           adjustedMin = (if min_b bracket = 0 then 0
                          else max (min_b bracket) (taxableIncome - remainingIncome));
           tax' = (if min_b bracket = 0
                   then let allowanceUsed = min taxableInBracket allowance
                        in tax + max 0 (taxableInBracket - allowanceUsed) * rate bracket
                   else tax + taxableInBracket * rate bracket)
       in calculateTax_loop taxableIncome allowance brackets tax'
            (remainingIncome - taxableInBracket))"

definition calculateTax :: "real \<Rightarrow> real" where
  "calculateTax taxableIncome =
    calculateTax_loop taxableIncome (personalAllowance taxableIncome) TAX_BRACKETS 0 taxableIncome"

text \<open>
  The same bracket walk with the allowance held at 12570 whatever the income: the
  comparison function of the claim that the taper does not change the tax.
\<close>

definition calculateTax_noTaper :: "real \<Rightarrow> real" where
  "calculateTax_noTaper taxableIncome =
    calculateTax_loop taxableIncome 12570 TAX_BRACKETS 0 taxableIncome"

section \<open>National Insurance\<close>

fun calculateNI_loop :: "bracket list \<Rightarrow> real \<Rightarrow> real \<Rightarrow> real" where
  "calculateNI_loop [] ni remainingIncome = ni"
| "calculateNI_loop (bracket # brackets) ni remainingIncome =
    (if remainingIncome \<le> 0 then ni
     else
       let incomeInBracket = min_width remainingIncome bracket
       in calculateNI_loop brackets (ni + incomeInBracket * rate bracket)
            (remainingIncome - incomeInBracket))"

definition calculateNI :: "real \<Rightarrow> real" where
  "calculateNI income = calculateNI_loop NI_BRACKETS 0 income"

section \<open>Binary64 numbers\<close>

text \<open>
  A \<^verbatim>\<open>number\<close> is a finite value, one of the two infinities or NaN. Finite values
  are reals; the values that the operations produce are binary64 numbers, since every
  operation rounds its exact result. The two zeros of binary64 are identified: the source
  never divides by a computed value and never inspects the sign of a zero.

  \<open>expo x\<close> is the binary exponent of \<open>x \<noteq> 0\<close>, the integer \<open>e\<close> with
  \<open>2 powi e \<le> \<bar>x\<bar> < 2 powi (e + 1)\<close> (lemmas \<open>expo_bounds\<close> and \<open>expo_unique\<close> below).
  \<open>quantize x\<close> rounds \<open>x\<close> to the nearest multiple of the spacing of binary64 numbers
  at \<open>x\<close>, which is \<open>2\<close> to the power \<open>expo x - 52\<close> and never less than \<open>2\<close> to the
  power \<open>-1074\<close> (gradual underflow); a tie goes to the even multiple. \<open>rd\<close> is rounding
  to binary64: the quantized value, or an infinity when that value has a magnitude of
  \<open>2 ^ 1024\<close> or more.
\<close>

datatype number = Fin real | Infinity | NegInfinity | NaN

definition expo :: "real \<Rightarrow> int" where
  "expo x =
    (if 1 \<le> \<bar>x\<bar> then int (floorlog 2 (nat \<lfloor>\<bar>x\<bar>\<rfloor>)) - 1
     else - int (floorlog 2 (nat (\<lceil>1 / \<bar>x\<bar>\<rceil> - 1))))"

definition round_even :: "real \<Rightarrow> int" where
  "round_even y =
    (let f = \<lfloor>y\<rfloor>; d = y - of_int f
     in if d < 1 / 2 then f else if 1 / 2 < d then f + 1 else if even f then f else f + 1)"

definition quantize :: "real \<Rightarrow> real" where
  "quantize x =
    (let q = 2 powi (max (expo x) (- 1022) - 52)
     in of_int (round_even (x / q)) * q)"

definition rd :: "real \<Rightarrow> number" where
  "rd x =
    (if x = 0 then Fin 0
     else let y = quantize x
          in if 2 ^ 1024 \<le> y then Infinity
             else if y \<le> - (2 ^ 1024) then NegInfinity
             else Fin y)"

text \<open>
  The operators \<^verbatim>\<open>+\<close>, unary and binary \<^verbatim>\<open>-\<close>, \<^verbatim>\<open>*\<close> and \<^verbatim>\<open>/\<close>, the
  comparisons \<^verbatim>\<open><=\<close>, \<^verbatim>\<open><\<close>, \<^verbatim>\<open>>\<close> and \<^verbatim>\<open>===\<close>, and \<^verbatim>\<open>Math.min\<close> and
  \<^verbatim>\<open>Math.max\<close> of two arguments. An operation on NaN gives NaN, a comparison with NaN
  is false; infinity minus infinity and infinity times zero are NaN. A division by zero
  takes the zero as positive.
\<close>

definition inf_of_sign :: "real \<Rightarrow> number" where
  "inf_of_sign s = (if 0 < s then Infinity else if s < 0 then NegInfinity else NaN)"

fun add_d :: "number \<Rightarrow> number \<Rightarrow> number" where
  "add_d NaN _ = NaN"
| "add_d _ NaN = NaN"
| "add_d (Fin a) (Fin b) = rd (a + b)"
| "add_d Infinity NegInfinity = NaN"
| "add_d NegInfinity Infinity = NaN"
| "add_d Infinity _ = Infinity"
| "add_d _ Infinity = Infinity"
| "add_d NegInfinity _ = NegInfinity"
| "add_d _ NegInfinity = NegInfinity"

fun neg_d :: "number \<Rightarrow> number" where
  "neg_d (Fin a) = Fin (- a)"
| "neg_d Infinity = NegInfinity"
| "neg_d NegInfinity = Infinity"
| "neg_d NaN = NaN"

definition sub_d :: "number \<Rightarrow> number \<Rightarrow> number" where
  "sub_d a b = add_d a (neg_d b)"

fun mul_d :: "number \<Rightarrow> number \<Rightarrow> number" where
  "mul_d NaN _ = NaN"
| "mul_d _ NaN = NaN"
| "mul_d (Fin a) (Fin b) = rd (a * b)"
| "mul_d (Fin a) Infinity = inf_of_sign a"
| "mul_d (Fin a) NegInfinity = inf_of_sign (- a)"
| "mul_d Infinity (Fin b) = inf_of_sign b"
| "mul_d NegInfinity (Fin b) = inf_of_sign (- b)"
| "mul_d Infinity Infinity = Infinity"
| "mul_d NegInfinity NegInfinity = Infinity"
| "mul_d Infinity NegInfinity = NegInfinity"
| "mul_d NegInfinity Infinity = NegInfinity"

fun div_d :: "number \<Rightarrow> number \<Rightarrow> number" where
  "div_d NaN _ = NaN"
| "div_d _ NaN = NaN"
| "div_d (Fin a) (Fin b) = (if b = 0 then inf_of_sign a else rd (a / b))"
| "div_d (Fin a) _ = Fin 0"
| "div_d Infinity (Fin b) = (if 0 \<le> b then Infinity else NegInfinity)"
| "div_d NegInfinity (Fin b) = (if 0 \<le> b then NegInfinity else Infinity)"
| "div_d _ _ = NaN"

fun le_d :: "number \<Rightarrow> number \<Rightarrow> bool" where
  "le_d NaN _ = False"
| "le_d _ NaN = False"
| "le_d (Fin a) (Fin b) = (a \<le> b)"
| "le_d NegInfinity _ = True"
| "le_d _ Infinity = True"
| "le_d _ _ = False"

fun lt_d :: "number \<Rightarrow> number \<Rightarrow> bool" where
  "lt_d NaN _ = False"
| "lt_d _ NaN = False"
| "lt_d (Fin a) (Fin b) = (a < b)"
| "lt_d Infinity _ = False"
| "lt_d _ NegInfinity = False"
| "lt_d _ _ = True"

definition gt_d :: "number \<Rightarrow> number \<Rightarrow> bool" where
  "gt_d a b = lt_d b a"

definition strict_eq :: "number \<Rightarrow> number \<Rightarrow> bool" where
  "strict_eq a b = (a \<noteq> NaN \<and> a = b)"

definition Math_min :: "number \<Rightarrow> number \<Rightarrow> number" where
  "Math_min a b = (if a = NaN \<or> b = NaN then NaN else if le_d a b then a else b)"

definition Math_max :: "number \<Rightarrow> number \<Rightarrow> number" where
  "Math_max a b = (if a = NaN \<or> b = NaN then NaN else if le_d a b then b else a)"

section \<open>Income tax and National Insurance in binary64 arithmetic\<close>

text \<open>
  The tables, \<^verbatim>\<open>calculateTax\<close> and \<^verbatim>\<open>calculateNI\<close> once more (and
  \<^verbatim>\<open>calculations\<close> after its exact model), operation by operation as the source has them, now on \<^typ>\<open>number\<close>. A decimal
  literal such as \<^verbatim>\<open>0.2\<close> denotes the binary64 number nearest to it; the integer
  literals are exact. The upper bound of the last bracket is \<^term>\<open>Infinity\<close> itself, so
  that the width of that bracket is infinite and the minimum with it is the remaining
  income.
\<close>

record bracket_d =
  min_d :: number
  max_d :: number
  rate_d :: number

definition TAX_BRACKETS_d :: "bracket_d list" where
  "TAX_BRACKETS_d =
    [\<lparr>min_d = Fin 0, max_d = Fin 12570, rate_d = Fin 0\<rparr>,
     \<lparr>min_d = Fin 12570, max_d = Fin 50270, rate_d = rd 0.2\<rparr>,
     \<lparr>min_d = Fin 50270, max_d = Fin 125140, rate_d = rd 0.4\<rparr>,
     \<lparr>min_d = Fin 125140, max_d = Infinity, rate_d = rd 0.45\<rparr>]"

definition NI_BRACKETS_d :: "bracket_d list" where
  "NI_BRACKETS_d =
    [\<lparr>min_d = Fin 0, max_d = Fin 12570, rate_d = Fin 0\<rparr>,
     \<lparr>min_d = Fin 12570, max_d = Fin 50270, rate_d = rd 0.12\<rparr>,
     \<lparr>min_d = Fin 50270, max_d = Infinity, rate_d = rd 0.02\<rparr>]"

fun calculateTax_loop_d ::
  "number \<Rightarrow> number \<Rightarrow> bracket_d list \<Rightarrow> number \<Rightarrow> number \<Rightarrow> number" where
  "calculateTax_loop_d taxableIncome allowance [] tax remainingIncome = tax"
| "calculateTax_loop_d taxableIncome allowance (bracket # brackets) tax remainingIncome =
    (if le_d remainingIncome (Fin 0) then tax
     else
       let taxableInBracket = Math_min remainingIncome (sub_d (max_d bracket) (min_d bracket));
           adjustedMin = (if strict_eq (min_d bracket) (Fin 0) then Fin 0
                          else Math_max (min_d bracket) (sub_d taxableIncome remainingIncome));
           tax' = (if strict_eq (min_d bracket) (Fin 0)
                   then let allowanceUsed = Math_min taxableInBracket allowance
                        in add_d tax
                             (mul_d (Math_max (Fin 0) (sub_d taxableInBracket allowanceUsed))
                                (rate_d bracket))
                   else add_d tax (mul_d taxableInBracket (rate_d bracket)))
       in calculateTax_loop_d taxableIncome allowance brackets tax'
            (sub_d remainingIncome taxableInBracket))"

definition calculateTax_d :: "number \<Rightarrow> number" where
  "calculateTax_d taxableIncome =
    (let personalAllowance =
           (if gt_d taxableIncome (Fin 100000)
            then sub_d (Fin 12570)
                   (Math_min (Fin 12570) (div_d (sub_d taxableIncome (Fin 100000)) (Fin 2)))
            else Fin 12570)
     in calculateTax_loop_d taxableIncome personalAllowance TAX_BRACKETS_d (Fin 0) taxableIncome)"

fun calculateNI_loop_d :: "bracket_d list \<Rightarrow> number \<Rightarrow> number \<Rightarrow> number" where
  "calculateNI_loop_d [] ni remainingIncome = ni"
| "calculateNI_loop_d (bracket # brackets) ni remainingIncome =
    (if le_d remainingIncome (Fin 0) then ni
     else
       let incomeInBracket = Math_min remainingIncome (sub_d (max_d bracket) (min_d bracket))
       in calculateNI_loop_d brackets (add_d ni (mul_d incomeInBracket (rate_d bracket)))
            (sub_d remainingIncome incomeInBracket))"

definition calculateNI_d :: "number \<Rightarrow> number" where
  "calculateNI_d income = calculateNI_loop_d NI_BRACKETS_d (Fin 0) income"

section \<open>The calculation of the take-home pay\<close>

text \<open>
  The ten state variables of the component \<^verbatim>\<open>SalaryCalculator\<close> that the memoised
  \<^verbatim>\<open>calculations\<close> depends on, and the object it returns. The two sacrifices that the
  result repeats from the inputs carry the suffix \<open>_r\<close> there.
\<close>

record inputs =
  salary :: real
  bonus :: real
  pensionContributionPercent :: real
  employerPensionPercent :: real
  electricCarSacrifice :: real
  bikeToWorkSacrifice :: real
  nurseryCostPerHour :: real
  nurseryHoursPerWeek :: real
  children9MonthsTo3Years :: real
  children3To4Years :: real

record results =
  grossIncome :: real
  taxableIncome :: real
  employeePensionContribution :: real
  employerPensionContribution :: real
  totalPensionContribution :: real
  tax :: real
  nationalInsurance :: real
  totalSalarySacrifice :: real
  electricCarSacrifice_r :: real
  bikeToWorkSacrifice_r :: real
  nurseryAnnualCost :: real
  freeHours9MonthsTo3Years :: real
  freeHours3To4Years :: real
  paidHours9MonthsTo3Years :: real
  paidHours3To4Years :: real
  cost9MonthsTo3Years :: real
  cost3To4Years :: real
  isUnder100k :: bool
  takeHome :: real

definition calculations :: "inputs \<Rightarrow> results" where
  "calculations inp =
    (let grossIncome' = salary inp + bonus inp;
         totalSalarySacrifice' = electricCarSacrifice inp + bikeToWorkSacrifice inp;
         employeePensionContribution' = (grossIncome' * pensionContributionPercent inp) / 100;
         employerPensionContribution' = (grossIncome' * employerPensionPercent inp) / 100;
         totalPensionContribution' = employeePensionContribution' + employerPensionContribution';
         taxableIncome' = grossIncome' - employeePensionContribution' - totalSalarySacrifice';
         tax' = calculateTax taxableIncome';
         nationalInsurance' =
           calculateNI (grossIncome' - employeePensionContribution' - totalSalarySacrifice');
         isUnder100k' = (taxableIncome' < CHILDCARE_FREE_HOURS_THRESHOLD);
         freeHours9MonthsTo3Years' =
           (if isUnder100k' then FREE_CHILDCARE_HOURS_PER_WEEK_UNDER_100K else 0);
         paidHours9MonthsTo3Years' = max 0 (nurseryHoursPerWeek inp - freeHours9MonthsTo3Years');
         cost9MonthsTo3Years' =
           paidHours9MonthsTo3Years' * nurseryCostPerHour inp * SCHOOL_WEEKS_PER_YEAR
             * children9MonthsTo3Years inp;
         freeHours3To4Years' =
           (if isUnder100k' then FREE_CHILDCARE_HOURS_PER_WEEK_UNDER_100K
            else FREE_CHILDCARE_HOURS_PER_WEEK_3_4_YEARS);
         paidHours3To4Years' = max 0 (nurseryHoursPerWeek inp - freeHours3To4Years');
         cost3To4Years' =
           paidHours3To4Years' * nurseryCostPerHour inp * SCHOOL_WEEKS_PER_YEAR
             * children3To4Years inp;
         nurseryAnnualCost' = cost9MonthsTo3Years' + cost3To4Years';
         takeHome' =
           grossIncome' - employeePensionContribution' - tax' - nationalInsurance'
             - totalSalarySacrifice' - nurseryAnnualCost'
     in \<lparr>grossIncome = grossIncome',
         taxableIncome = taxableIncome',
         employeePensionContribution = employeePensionContribution',
         employerPensionContribution = employerPensionContribution',
         totalPensionContribution = totalPensionContribution',
         tax = tax',
         nationalInsurance = nationalInsurance',
         totalSalarySacrifice = totalSalarySacrifice',
         electricCarSacrifice_r = electricCarSacrifice inp,
         bikeToWorkSacrifice_r = bikeToWorkSacrifice inp,
         nurseryAnnualCost = nurseryAnnualCost',
         freeHours9MonthsTo3Years = freeHours9MonthsTo3Years',
         freeHours3To4Years = freeHours3To4Years',
         paidHours9MonthsTo3Years = paidHours9MonthsTo3Years',
         paidHours3To4Years = paidHours3To4Years',
         cost9MonthsTo3Years = cost9MonthsTo3Years',
         cost3To4Years = cost3To4Years',
         isUnder100k = isUnder100k',
         takeHome = takeHome'\<rparr>)"

section \<open>The calculation of the take-home pay in binary64 arithmetic\<close>

record inputs_d =
  salary_d :: number
  bonus_d :: number
  pensionContributionPercent_d :: number
  employerPensionPercent_d :: number
  electricCarSacrifice_d :: number
  bikeToWorkSacrifice_d :: number
  nurseryCostPerHour_d :: number
  nurseryHoursPerWeek_d :: number
  children9MonthsTo3Years_d :: number
  children3To4Years_d :: number

record results_d =
  grossIncome_d :: number
  taxableIncome_d :: number
  employeePensionContribution_d :: number
  employerPensionContribution_d :: number
  totalPensionContribution_d :: number
  tax_d :: number
  nationalInsurance_d :: number
  totalSalarySacrifice_d :: number
  electricCarSacrifice_r_d :: number
  bikeToWorkSacrifice_r_d :: number
  nurseryAnnualCost_d :: number
  freeHours9MonthsTo3Years_d :: number
  freeHours3To4Years_d :: number
  paidHours9MonthsTo3Years_d :: number
  paidHours3To4Years_d :: number
  cost9MonthsTo3Years_d :: number
  cost3To4Years_d :: number
  isUnder100k_d :: bool
  takeHome_d :: number

definition calculations_d :: "inputs_d \<Rightarrow> results_d" where
  "calculations_d inp =
    (let grossIncome' = add_d (salary_d inp) (bonus_d inp);
         totalSalarySacrifice' = add_d (electricCarSacrifice_d inp) (bikeToWorkSacrifice_d inp);
         employeePensionContribution' =
           div_d (mul_d grossIncome' (pensionContributionPercent_d inp)) (Fin 100);
         employerPensionContribution' =
           div_d (mul_d grossIncome' (employerPensionPercent_d inp)) (Fin 100);
         totalPensionContribution' =
           add_d employeePensionContribution' employerPensionContribution';
         taxableIncome' =
           sub_d (sub_d grossIncome' employeePensionContribution') totalSalarySacrifice';
         tax' = calculateTax_d taxableIncome';
         nationalInsurance' =
           calculateNI_d
             (sub_d (sub_d grossIncome' employeePensionContribution') totalSalarySacrifice');
         isUnder100k' = lt_d taxableIncome' (Fin 100000);
         freeHours9MonthsTo3Years' = (if isUnder100k' then Fin 30 else Fin 0);
         paidHours9MonthsTo3Years' =
           Math_max (Fin 0) (sub_d (nurseryHoursPerWeek_d inp) freeHours9MonthsTo3Years');
         cost9MonthsTo3Years' =
           mul_d (mul_d (mul_d paidHours9MonthsTo3Years' (nurseryCostPerHour_d inp)) (Fin 38))
             (children9MonthsTo3Years_d inp);
         freeHours3To4Years' = (if isUnder100k' then Fin 30 else Fin 15);
         paidHours3To4Years' =
           Math_max (Fin 0) (sub_d (nurseryHoursPerWeek_d inp) freeHours3To4Years');
         cost3To4Years' =
           mul_d (mul_d (mul_d paidHours3To4Years' (nurseryCostPerHour_d inp)) (Fin 38))
             (children3To4Years_d inp);
         nurseryAnnualCost' = add_d cost9MonthsTo3Years' cost3To4Years';
         takeHome' =
           sub_d
             (sub_d
               (sub_d
                 (sub_d (sub_d grossIncome' employeePensionContribution') tax')
                 nationalInsurance')
               totalSalarySacrifice')
             nurseryAnnualCost'
     in \<lparr>grossIncome_d = grossIncome',
         taxableIncome_d = taxableIncome',
         employeePensionContribution_d = employeePensionContribution',
         employerPensionContribution_d = employerPensionContribution',
         totalPensionContribution_d = totalPensionContribution',
         tax_d = tax',
         nationalInsurance_d = nationalInsurance',
         totalSalarySacrifice_d = totalSalarySacrifice',
         electricCarSacrifice_r_d = electricCarSacrifice_d inp,
         bikeToWorkSacrifice_r_d = bikeToWorkSacrifice_d inp,
         nurseryAnnualCost_d = nurseryAnnualCost',
         freeHours9MonthsTo3Years_d = freeHours9MonthsTo3Years',
         freeHours3To4Years_d = freeHours3To4Years',
         paidHours9MonthsTo3Years_d = paidHours9MonthsTo3Years',
         paidHours3To4Years_d = paidHours3To4Years',
         cost9MonthsTo3Years_d = cost9MonthsTo3Years',
         cost3To4Years_d = cost3To4Years',
         isUnder100k_d = isUnder100k',
         takeHome_d = takeHome'\<rparr>)"

section \<open>Example inputs\<close>


definition scenario_d :: "number \<Rightarrow> number \<Rightarrow> inputs_d" where
  "scenario_d c h =
    \<lparr>salary_d = Fin 50000, bonus_d = Fin 0, pensionContributionPercent_d = Fin 5,
     employerPensionPercent_d = Fin 3, electricCarSacrifice_d = Fin 0,
     bikeToWorkSacrifice_d = Fin 0, nurseryCostPerHour_d = c, nurseryHoursPerWeek_d = h,
     children9MonthsTo3Years_d = Fin 0, children3To4Years_d = Fin 0\<rparr>"


section \<open>Closed forms of the two bracket walks\<close>

lemma calculateTax_loop_nonpos:
  "remainingIncome \<le> 0 \<Longrightarrow> calculateTax_loop t a bs acc remainingIncome = acc"
  by (cases bs) simp_all

lemma calculateNI_loop_nonpos:
  "remainingIncome \<le> 0 \<Longrightarrow> calculateNI_loop bs acc remainingIncome = acc"
  by (cases bs) simp_all

text \<open>
  The walk over the tax table for any allowance \<open>a\<close>: the allowance only enters a
  product with the rate 0 of the first bracket.
\<close>

lemma calculateTax_loop_closed:
  "calculateTax_loop t a TAX_BRACKETS 0 x =
    (if x \<le> 12570 then 0
     else if x \<le> 50270 then (x - 12570) * 0.2
     else if x \<le> 125140 then 7540 + (x - 50270) * 0.4
     else 37488 + (x - 125140) * 0.45)"
  by (simp add: TAX_BRACKETS_def min_width_def Let_def min_def)


section \<open>Rounding to binary64\<close>

text \<open>
  The exponent function meets its specification, and it is the only function that does.
  Doubling a number that is not subnormal doubles its rounding.
\<close>

lemma expo_bounds_large:
  assumes True: "1 \<le> \<bar>x\<bar>"
  shows "2 powi expo x \<le> \<bar>x\<bar> \<and> \<bar>x\<bar> < 2 powi (expo x + 1)"
proof -
  define n where "n = nat \<lfloor>\<bar>x\<bar>\<rfloor>"
  define k where "k = floorlog 2 n"
  have n1: "1 \<le> n" using True by (simp add: n_def le_nat_iff le_floor_iff)
  have b: "2 ^ (k - 1) \<le> n \<and> n < 2 ^ k"
    unfolding k_def using floorlog_bounds [of n 2] n1 by simp
  have k1: "1 \<le> k" using b n1 by (cases k) auto
  have e: "expo x = int k - 1" using True by (simp add: expo_def n_def k_def)
  have nle: "real n \<le> \<bar>x\<bar>" by (simp add: n_def)
  have nlt: "\<bar>x\<bar> < real n + 1" by (simp add: n_def)
  have lo: "(2::real) powi (int k - 1) = 2 ^ (k - 1)"
    using k1 by (simp add: power_int_def nat_diff_distrib')
  have hi: "(2::real) powi (int k - 1 + 1) = 2 ^ k" by simp
  have "real (2 ^ (k - 1)) \<le> real n" using b by (simp only: of_nat_le_iff)
  then have "(2::real) ^ (k - 1) \<le> real n" by (simp only: of_nat_power of_nat_numeral)
  then have A: "(2::real) ^ (k - 1) \<le> \<bar>x\<bar>" using nle by linarith
  have "n + 1 \<le> 2 ^ k" using b by simp
  then have "real (n + 1) \<le> real (2 ^ k)" by (simp only: of_nat_le_iff)
  then have "real n + 1 \<le> (2::real) ^ k"
    by (simp only: of_nat_power of_nat_numeral of_nat_add of_nat_1)
  then have B: "\<bar>x\<bar> < (2::real) ^ k" using nlt by linarith
  show ?thesis unfolding e lo hi using A B by simp
qed

lemma expo_bounds_small:
  assumes "x \<noteq> 0" and False: "\<not> 1 \<le> \<bar>x\<bar>"
  shows "2 powi expo x \<le> \<bar>x\<bar> \<and> \<bar>x\<bar> < 2 powi (expo x + 1)"
proof -
  from False have x1: "\<bar>x\<bar> < 1" by (simp only: not_le)
  have x0: "0 < \<bar>x\<bar>" using assms by simp
  define m where "m = \<lceil>1 / \<bar>x\<bar>\<rceil>"
  define k where "k = floorlog 2 (nat (m - 1))"
  have inv1: "1 < 1 / \<bar>x\<bar>" using x0 x1 by (simp only: less_divide_eq_1_pos)
  have m2: "2 \<le> m" unfolding m_def using inv1 by (simp add: le_ceiling_iff)
  have b: "2 ^ (k - 1) \<le> nat (m - 1) \<and> nat (m - 1) < 2 ^ k"
    unfolding k_def using floorlog_bounds [of "nat (m - 1)" 2] m2 by simp
  have k1: "1 \<le> k" using b m2 by (cases k) auto
  have e: "expo x = - int k" using False by (simp add: expo_def m_def k_def)
  have mle: "1 / \<bar>x\<bar> \<le> of_int m"
    and mlt: "of_int m - 1 < 1 / \<bar>x\<bar>"
    unfolding m_def using ceiling_correct [of "1 / \<bar>x\<bar>"] by simp_all
  have nm: "int (nat (m - 1)) = m - 1" using m2 by simp
  have "int (nat (m - 1)) < int (2 ^ k)" using b by (simp only: of_nat_less_iff)
  then have "m - 1 < 2 ^ k" unfolding nm by (simp only: of_nat_power of_nat_numeral)
  then have "m \<le> 2 ^ k" by linarith
  then have "(of_int m :: real) \<le> of_int (2 ^ k)" by (simp only: of_int_le_iff)
  then have "(of_int m :: real) \<le> 2 ^ k" by (simp only: of_int_power of_int_numeral)
  then have A: "1 / \<bar>x\<bar> \<le> 2 ^ k" using mle by linarith
  have "int (2 ^ (k - 1)) \<le> int (nat (m - 1))" using b by (simp only: of_nat_le_iff)
  then have "2 ^ (k - 1) \<le> m - 1" unfolding nm by (simp only: of_nat_power of_nat_numeral)
  then have "(of_int (2 ^ (k - 1)) :: real) \<le> of_int (m - 1)" by (simp only: of_int_le_iff)
  then have "(2::real) ^ (k - 1) \<le> of_int m - 1"
    by (simp only: of_int_power of_int_numeral of_int_diff of_int_1)
  then have B: "2 ^ (k - 1) < 1 / \<bar>x\<bar>" using mlt by linarith
  have "(2::real) powi (- int k) = 1 / 2 powi int k" by (rule power_int_minus_divide)
  then have lo: "(2::real) powi (- int k) = 1 / 2 ^ k" by (simp only: power_int_of_nat)
  have "- int k + 1 = - int (k - 1)" using k1 by linarith
  then have "(2::real) powi (- int k + 1) = 2 powi (- int (k - 1))" by (simp only:)
  also have "\<dots> = 1 / 2 powi int (k - 1)" by (rule power_int_minus_divide)
  finally have hi: "(2::real) powi (- int k + 1) = 1 / 2 ^ (k - 1)"
    by (simp only: power_int_of_nat)
  have p: "0 < (2::real) ^ k" and p': "0 < (2::real) ^ (k - 1)" by simp_all
  from A x0 have "1 \<le> 2 ^ k * \<bar>x\<bar>" by (simp only: pos_divide_le_eq)
  then have A': "1 / 2 ^ k \<le> \<bar>x\<bar>" using p by (simp only: pos_divide_le_eq mult.commute)
  from B x0 have "2 ^ (k - 1) * \<bar>x\<bar> < 1" by (simp only: pos_less_divide_eq)
  then have B': "\<bar>x\<bar> < 1 / 2 ^ (k - 1)" using p' by (simp only: pos_less_divide_eq mult.commute)
  show ?thesis unfolding e lo hi using A' B' by simp
qed

lemma expo_bounds:
  assumes "x \<noteq> 0"
  shows "2 powi expo x \<le> \<bar>x\<bar> \<and> \<bar>x\<bar> < 2 powi (expo x + 1)"
  using assms expo_bounds_large [of x] expo_bounds_small [of x] by blast

lemma expo_unique:
  assumes "2 powi e \<le> \<bar>x\<bar>" and "\<bar>x\<bar> < 2 powi (e + 1)"
  shows "expo x = e"
proof -
  have x0: "x \<noteq> 0"
  proof
    assume "x = 0"
    with assms(1) have "2 powi e \<le> (0::real)" by simp
    moreover have "0 < (2::real) powi e" by simp
    ultimately show False by linarith
  qed
  note b = expo_bounds [OF x0]
  have "(2::real) powi expo x < 2 powi (e + 1)" using b assms by linarith
  then have 1: "expo x < e + 1"
    by (metis power_int_increasing not_less one_le_numeral)
  have "(2::real) powi e < 2 powi (expo x + 1)" using b assms by linarith
  then have 2: "e < expo x + 1"
    by (metis power_int_increasing not_less one_le_numeral)
  show ?thesis using 1 2 by simp
qed




lemmas binary64_eval = rd_def quantize_def expo_def compute_floorlog round_even_def Let_def
  sub_d_def Math_min_def Math_max_def strict_eq_def gt_d_def inf_of_sign_def

lemma quantize_eval:
  assumes "2 powi e \<le> \<bar>x\<bar>" and "\<bar>x\<bar> < 2 powi (e + 1)"
  shows "quantize x =
    of_int (round_even (x / 2 powi (max e (- 1022) - 52))) * 2 powi (max e (- 1022) - 52)"
  unfolding quantize_def Let_def expo_unique [OF assms] ..


lemma add_d_NaN_right: "add_d a NaN = NaN"
  by (cases a) simp_all

lemma sub_d_NaN_right: "sub_d a NaN = NaN"
  by (simp add: sub_d_def add_d_NaN_right)

lemma mul_d_zero_right: "mul_d (Fin x) (Fin 0) = Fin 0"
  by (simp add: rd_def)

lemma rd_overflow_1: "rd (10 * 2 ^ 1020) = Fin (10 * 2 ^ 1020)"
proof -
  have q: "quantize (10 * 2 ^ 1020) = 10 * 2 ^ 1020"
    by (subst quantize_eval [of 1023]) (simp_all add: round_even_def Let_def)
  show ?thesis unfolding rd_def Let_def q by simp
qed

lemma rd_overflow_2: "rd (10 * 2 ^ 1020 * 38) = Infinity"
proof -
  have q: "quantize (10 * 2 ^ 1020 * 38) = 10 * 2 ^ 1020 * 38"
    by (subst quantize_eval [of 1028]) (simp_all add: round_even_def Let_def)
  show ?thesis unfolding rd_def Let_def q by simp
qed

lemma overflow_product: "mul_d (mul_d (Fin 10) (Fin (2 ^ 1020))) (Fin 38) = Infinity"
  by (simp only: mul_d.simps rd_overflow_1 rd_overflow_2)





section \<open>The fields of the binary64 calculation\<close>

lemma calculations_d_taxableIncome:
  "taxableIncome_d (calculations_d inp) =
    sub_d (sub_d (add_d (salary_d inp) (bonus_d inp))
             (div_d (mul_d (add_d (salary_d inp) (bonus_d inp)) (pensionContributionPercent_d inp))
                (Fin 100)))
      (add_d (electricCarSacrifice_d inp) (bikeToWorkSacrifice_d inp))"
  by (simp add: calculations_d_def Let_def)

lemma calculations_d_tax:
  "tax_d (calculations_d inp) = calculateTax_d (taxableIncome_d (calculations_d inp))"
  by (simp add: calculations_d_def Let_def)

lemma calculations_d_nationalInsurance:
  "nationalInsurance_d (calculations_d inp) = calculateNI_d (taxableIncome_d (calculations_d inp))"
  by (simp add: calculations_d_def Let_def)

lemma calculations_d_isUnder100k:
  "isUnder100k_d (calculations_d inp) = lt_d (taxableIncome_d (calculations_d inp)) (Fin 100000)"
  by (simp add: calculations_d_def Let_def)

lemma calculations_d_paidHours9:
  "paidHours9MonthsTo3Years_d (calculations_d inp) =
    Math_max (Fin 0)
      (sub_d (nurseryHoursPerWeek_d inp)
         (if isUnder100k_d (calculations_d inp) then Fin 30 else Fin 0))"
  by (simp add: calculations_d_def Let_def)

lemma calculations_d_paidHours3:
  "paidHours3To4Years_d (calculations_d inp) =
    Math_max (Fin 0)
      (sub_d (nurseryHoursPerWeek_d inp)
         (if isUnder100k_d (calculations_d inp) then Fin 30 else Fin 15))"
  by (simp add: calculations_d_def Let_def)

lemma calculations_d_cost9:
  "cost9MonthsTo3Years_d (calculations_d inp) =
    mul_d (mul_d (mul_d (paidHours9MonthsTo3Years_d (calculations_d inp))
                    (nurseryCostPerHour_d inp)) (Fin 38))
      (children9MonthsTo3Years_d inp)"
  by (simp add: calculations_d_def Let_def)

lemma calculations_d_cost3:
  "cost3To4Years_d (calculations_d inp) =
    mul_d (mul_d (mul_d (paidHours3To4Years_d (calculations_d inp))
                    (nurseryCostPerHour_d inp)) (Fin 38))
      (children3To4Years_d inp)"
  by (simp add: calculations_d_def Let_def)

lemma calculations_d_takeHome:
  "takeHome_d (calculations_d inp) =
    sub_d
      (sub_d
        (sub_d
          (sub_d
            (sub_d (add_d (salary_d inp) (bonus_d inp))
               (div_d (mul_d (add_d (salary_d inp) (bonus_d inp))
                         (pensionContributionPercent_d inp)) (Fin 100)))
            (tax_d (calculations_d inp)))
          (nationalInsurance_d (calculations_d inp)))
        (add_d (electricCarSacrifice_d inp) (bikeToWorkSacrifice_d inp)))
      (add_d (cost9MonthsTo3Years_d (calculations_d inp)) (cost3To4Years_d (calculations_d inp)))"
  by (simp add: calculations_d_def Let_def)



lemma calculateTax_d_47500: "calculateTax_d (Fin 47500) = Fin 6986"
  by (simp add: calculateTax_d_def TAX_BRACKETS_d_def binary64_eval)

lemma calculateNI_d_47500:
  "calculateNI_d (Fin 47500) = Fin (4608712938985881 / 1099511627776)"
  by (simp add: calculateNI_d_def NI_BRACKETS_d_def binary64_eval)

lemma rd_4191_6: "rd 4191.6 = Fin (2304356469492941 / 549755813888)"
  by (simp add: binary64_eval)





lemma scenario_d_taxableIncome:
  "taxableIncome_d (calculations_d (scenario_d c h)) = Fin 47500"
  by (simp add: calculations_d_taxableIncome scenario_d_def binary64_eval)

lemma scenario_d_tax: "tax_d (calculations_d (scenario_d c h)) = Fin 6986"
  by (simp only: calculations_d_tax scenario_d_taxableIncome calculateTax_d_47500)

lemma scenario_d_nationalInsurance:
  "nationalInsurance_d (calculations_d (scenario_d c h)) =
    Fin (4608712938985881 / 1099511627776)"
  by (simp only: calculations_d_nationalInsurance scenario_d_taxableIncome calculateNI_d_47500)

lemma scenario_d_paidHours:
  "paidHours9MonthsTo3Years_d (calculations_d (scenario_d c h)) =
     Math_max (Fin 0) (sub_d h (Fin 30))"
  "paidHours3To4Years_d (calculations_d (scenario_d c h)) =
     Math_max (Fin 0) (sub_d h (Fin 30))"
  by (simp_all add: calculations_d_paidHours9 calculations_d_paidHours3
      calculations_d_isUnder100k scenario_d_taxableIncome) (simp_all add: scenario_d_def)

lemma scenario_d_cost:
  "cost9MonthsTo3Years_d (calculations_d (scenario_d c h)) =
     mul_d (mul_d (mul_d (Math_max (Fin 0) (sub_d h (Fin 30))) c) (Fin 38)) (Fin 0)"
  "cost3To4Years_d (calculations_d (scenario_d c h)) =
     mul_d (mul_d (mul_d (Math_max (Fin 0) (sub_d h (Fin 30))) c) (Fin 38)) (Fin 0)"
  by (simp_all add: calculations_d_cost9 calculations_d_cost3 scenario_d_paidHours)
     (simp_all add: scenario_d_def)

lemma scenario_d_takeHome:
  "takeHome_d (calculations_d (scenario_d c h)) =
     sub_d (Fin (4992112643591373 / 137438953472))
       (add_d (cost9MonthsTo3Years_d (calculations_d (scenario_d c h)))
          (cost3To4Years_d (calculations_d (scenario_d c h))))"
proof -
  have "sub_d
      (sub_d
        (sub_d
          (sub_d (add_d (Fin 50000) (Fin 0))
             (div_d (mul_d (add_d (Fin 50000) (Fin 0)) (Fin 5)) (Fin 100)))
          (Fin 6986))
        (Fin (4608712938985881 / 1099511627776)))
      (add_d (Fin 0) (Fin 0)) = Fin (4992112643591373 / 137438953472)"
    by (simp add: binary64_eval)
  then show ?thesis
    unfolding calculations_d_takeHome scenario_d_tax scenario_d_nationalInsurance
    by (simp add: scenario_d_def)
qed

lemma rd_36322_4: "rd 36322.4 = Fin (4992112643591373 / 137438953472)"
  by (simp add: binary64_eval)

lemma sub_d_zero_sum:
  "sub_d (Fin (4992112643591373 / 137438953472)) (add_d (Fin 0) (Fin 0)) =
    Fin (4992112643591373 / 137438953472)"
  by (simp add: binary64_eval)

section \<open>The claims\<close>

text \<open>
  C1. In binary64 arithmetic, with a salary of 50000, no bonus, an employee pension of
  5 percent, an employer pension of 3 percent, no salary sacrifice and no children, and
  with an hourly cost \<open>c\<close> and weekly hours \<open>h\<close> of the nursery for which the product of
  the paid hours, the hourly cost and 38 is finite, the calculation returns a taxable
  income of 47500, a tax of 6986 and a take-home pay that is the binary64 number written
  36322.4. The National Insurance is the rounded product of 34930 and the binary64 number
  written 0.12, which is 4608712938985881 / 2 ^ 40 and prints as 4191.599999999999: it
  is within 1 / 10 ^ 12 of 4191.6 and is not the binary64 number written 4191.6.
\<close>

theorem C1_scenario_binary64:
  assumes "mul_d (mul_d (Math_max (Fin 0) (sub_d h (Fin 30))) c) (Fin 38) = Fin x"
  shows "taxableIncome_d (calculations_d (scenario_d c h)) = Fin 47500
   \<and> tax_d (calculations_d (scenario_d c h)) = Fin 6986
   \<and> nationalInsurance_d (calculations_d (scenario_d c h)) =
       Fin (4608712938985881 / 1099511627776)
   \<and> \<bar>4608712938985881 / 1099511627776 - 4191.6 :: real\<bar> < 1 / 10 ^ 12
   \<and> takeHome_d (calculations_d (scenario_d c h)) = rd 36322.4"
proof -
  have c: "cost9MonthsTo3Years_d (calculations_d (scenario_d c h)) = Fin 0"
    "cost3To4Years_d (calculations_d (scenario_d c h)) = Fin 0"
    by (simp_all only: scenario_d_cost assms mul_d_zero_right)
  have t: "takeHome_d (calculations_d (scenario_d c h)) = rd 36322.4"
    by (simp only: scenario_d_takeHome c sub_d_zero_sum rd_36322_4)
  have a: "\<bar>4608712938985881 / 1099511627776 - 4191.6 :: real\<bar> < 1 / 10 ^ 12"
    by simp
  show ?thesis
    using scenario_d_taxableIncome scenario_d_tax scenario_d_nationalInsurance a t by blast
qed

theorem C1_scenario_binary64_witness:
  "mul_d (mul_d (Math_max (Fin 0) (sub_d (Fin 40) (Fin 30))) (Fin 12)) (Fin 38) = Fin 4560
   \<and> taxableIncome_d (calculations_d (scenario_d (Fin 12) (Fin 40))) = Fin 47500
   \<and> tax_d (calculations_d (scenario_d (Fin 12) (Fin 40))) = Fin 6986
   \<and> nationalInsurance_d (calculations_d (scenario_d (Fin 12) (Fin 40))) =
       Fin (4608712938985881 / 1099511627776)
   \<and> takeHome_d (calculations_d (scenario_d (Fin 12) (Fin 40))) = rd 36322.4"
proof -
  have h: "mul_d (mul_d (Math_max (Fin 0) (sub_d (Fin 40) (Fin 30))) (Fin 12)) (Fin 38) = Fin 4560"
    by (simp add: binary64_eval)
  show ?thesis using h C1_scenario_binary64 [OF h] by blast
qed

text \<open>
  The National Insurance of the scenario is not the number written 4191.6, and with an
  hourly cost of 2 ^ 1020 the nursery cost of no children, and with it the take-home
  pay, is NaN.
\<close>

theorem C1_scenario_counterexample:
  "nationalInsurance_d (calculations_d (scenario_d (Fin 12) (Fin 40))) \<noteq> rd 4191.6
   \<and> takeHome_d (calculations_d (scenario_d (Fin (2 ^ 1020)) (Fin 40))) = NaN"
proof -
  have p: "Math_max (Fin 0) (sub_d (Fin 40) (Fin 30)) = Fin 10" by (simp add: binary64_eval)
  have c: "cost9MonthsTo3Years_d (calculations_d (scenario_d (Fin (2 ^ 1020)) (Fin 40))) = NaN"
    "cost3To4Years_d (calculations_d (scenario_d (Fin (2 ^ 1020)) (Fin 40))) = NaN"
    by (simp_all only: scenario_d_cost p overflow_product) (simp_all add: inf_of_sign_def)
  have t: "takeHome_d (calculations_d (scenario_d (Fin (2 ^ 1020)) (Fin 40))) = NaN"
    by (simp only: scenario_d_takeHome c add_d.simps sub_d_NaN_right)
  have n: "nationalInsurance_d (calculations_d (scenario_d (Fin 12) (Fin 40))) \<noteq> rd 4191.6"
    by (simp only: scenario_d_nationalInsurance rd_4191_6) simp
  show ?thesis using n t by blast
qed

text \<open>
  C2. For every input the taxable income is the gross income (salary plus bonus) less the
  employee's pension percentage of it and less the two salary sacrifices; the tax and the
  National Insurance are both computed on that taxable income; and the take-home pay is
  the gross income less employee pension, tax, National Insurance, the total salary
  sacrifice and the total nursery cost (the sum of the costs of the two cohorts).
\<close>

theorem C2_pipeline:
  "taxableIncome (calculations inp) =
     (salary inp + bonus inp) - (salary inp + bonus inp) * pensionContributionPercent inp / 100
       - (electricCarSacrifice inp + bikeToWorkSacrifice inp)
   \<and> tax (calculations inp) = calculateTax (taxableIncome (calculations inp))
   \<and> nationalInsurance (calculations inp) = calculateNI (taxableIncome (calculations inp))
   \<and> grossIncome (calculations inp) = salary inp + bonus inp
   \<and> employeePensionContribution (calculations inp) =
       (salary inp + bonus inp) * pensionContributionPercent inp / 100
   \<and> totalSalarySacrifice (calculations inp) =
       electricCarSacrifice inp + bikeToWorkSacrifice inp
   \<and> nurseryAnnualCost (calculations inp) =
       cost9MonthsTo3Years (calculations inp) + cost3To4Years (calculations inp)
   \<and> takeHome (calculations inp) =
       grossIncome (calculations inp) - employeePensionContribution (calculations inp)
         - tax (calculations inp) - nationalInsurance (calculations inp)
         - totalSalarySacrifice (calculations inp) - nurseryAnnualCost (calculations inp)"
  by (simp add: calculations_def Let_def)

text \<open>
  C3. The personal allowance that \<^verbatim>\<open>calculateTax\<close> computes is 12570 for a taxable
  income up to and including 100000, and above 100000 it is 12570 reduced by the minimum
  of 12570 and half of the excess over 100000. It is 12570 at 100000, 0 at 125140, still
  0 at 150000, and it is never negative.
\<close>

theorem C3_allowance_taper:
  "personalAllowance x =
     (if x \<le> 100000 then 12570 else 12570 - min 12570 ((x - 100000) / 2))
   \<and> personalAllowance 100000 = 12570
   \<and> personalAllowance 125140 = 0
   \<and> personalAllowance 150000 = 0
   \<and> 0 \<le> personalAllowance x"
  by (simp add: personalAllowance_def)

text \<open>
  C4. For every taxable income \<^verbatim>\<open>calculateTax\<close> returns the value of the same bracket
  walk with the allowance held at 12570; indeed the walk returns the same tax for every
  value \<open>a\<close> of the allowance, since the allowance is only used in the first bracket,
  whose rate is 0.
\<close>

theorem C4_taper_has_no_effect:
  "calculateTax x = calculateTax_noTaper x
   \<and> calculateTax_loop x a TAX_BRACKETS 0 x = calculateTax x"
  by (simp only: calculateTax_def calculateTax_noTaper_def calculateTax_loop_closed)




text \<open>
  C7. For incomes \<open>0 \<le> a \<le> b\<close> the tax on \<open>a\<close> is not negative and not more than the
  tax on \<open>b\<close>.
\<close>

theorem C7_tax_nonneg_mono:
  assumes "0 \<le> a" and "a \<le> b"
  shows "0 \<le> calculateTax a \<and> calculateTax a \<le> calculateTax b"
  unfolding calculateTax_def calculateTax_loop_closed
  using assms by (auto split: if_splits simp: field_simps)

theorem C7_tax_nonneg_mono_witness:
  "(0::real) \<le> 20000 \<and> (20000::real) \<le> 60000
   \<and> 0 \<le> calculateTax 20000 \<and> calculateTax 20000 \<le> calculateTax 60000
   \<and> calculateTax 20000 = 1486 \<and> calculateTax 60000 = 11432"
proof -
  have h1: "(0::real) \<le> 20000" and h2: "(20000::real) \<le> 60000" by simp_all
  have v: "calculateTax 20000 = 1486 \<and> calculateTax 60000 = 11432"
    by (simp add: calculateTax_def calculateTax_loop_closed)
  show ?thesis using h1 h2 v C7_tax_nonneg_mono [OF h1 h2] by simp
qed

text \<open>
  C8. The tax on an income of exactly 12570 is 0 and the tax on 12571 is positive. An
  income that is exactly the upper bound of a bracket is taxed in the brackets up to that
  one only: the tax on 50270 is 20 percent of the 37700 of the second bracket, and the
  tax on 125140 adds 40 percent of the 74870 of the third.
\<close>

theorem C8_band_boundary:
  "calculateTax 12570 = 0
   \<and> 0 < calculateTax 12571
   \<and> calculateTax 50270 = 37700 * 0.2
   \<and> calculateTax 125140 = 37700 * 0.2 + 74870 * 0.4"
  by (simp add: calculateTax_def calculateTax_loop_closed)




text \<open>
  C10. Both bracket walks are total functions, and for every income that is zero or
  negative each of them returns exactly 0.
\<close>

theorem C10_nonpositive_income:
  assumes "x \<le> 0"
  shows "calculateTax x = 0 \<and> calculateNI x = 0"
  using assms
  by (simp add: calculateTax_def calculateNI_def calculateTax_loop_nonpos calculateNI_loop_nonpos)

theorem C10_nonpositive_income_witness:
  "(-5::real) \<le> 0 \<and> calculateTax (-5) = 0 \<and> calculateNI (-5) = 0
   \<and> (0::real) \<le> 0 \<and> calculateTax 0 = 0 \<and> calculateNI 0 = 0"
proof -
  have h1: "(-5::real) \<le> 0" and h2: "(0::real) \<le> 0" by simp_all
  show ?thesis
    using h1 h2 C10_nonpositive_income [OF h1] C10_nonpositive_income [OF h2] by simp
qed

end
